theory Spec2Isabelle
  imports Complex_Main "HOL-Library.Multiset" "HOL-Library.AList"
begin

section \<open>Data model of the workflow engine (pyheart/core/workflow.py)\<close>

text \<open>
  The embedding follows \<^verbatim>\<open>src/pyheart-package.py\<close>, section
  \<^verbatim>\<open>src/pyheart/core/workflow.py\<close>.  Python classes become records; since a record
  field is a global constant in HOL, every field carries a short prefix naming its class
  (\<open>task_\<close> for \<^verbatim>\<open>Task\<close>, \<open>tr_\<close> for \<^verbatim>\<open>TaskResult\<close>, \<open>pd_\<close> for
  \<^verbatim>\<open>ProcessDefinition\<close>, \<open>wi_\<close> for \<^verbatim>\<open>WorkflowInstance\<close>).  Python dictionaries
  are association lists read with \<open>map_of\<close> (first binding wins) and written with
  \<open>AList.update\<close> (a bound key keeps its position, a new key is appended), which is the
  behaviour of an insertion-ordered \<^verbatim>\<open>dict\<close>.
\<close>

datatype task_status = PENDING | RUNNING | COMPLETED | FAILED | CANCELLED | SKIPPED

datatype task_type = API_CALL | TRANSFORMATION | DECISION | NOTIFICATION
  | HUMAN_TASK | SCRIPT | PARALLEL | SEQUENCE

text \<open>
  Values of type \<^verbatim>\<open>Any\<close> that occur in configurations and variables: the JSON-like part of
  Python.  A \<^verbatim>\<open>float\<close> is represented by the real number it denotes.
\<close>

datatype pyval = VNone | VBool bool | VInt int | VFloat real | VStr string
  | VList "pyval list" | VDict "(string \<times> pyval) list"

type_synonym pydict = "(string \<times> pyval) list"

record task =
  task_id :: string
  task_name :: string
  task_type :: task_type
  task_config :: pydict
  task_dependencies :: "string list"
  task_retry_policy :: pydict
  task_timeout :: "int option"

text \<open>\<^verbatim>\<open>Task(id=..., name=..., type=...)\<close> with the defaults of the field declarations.\<close>

definition Task :: "string \<Rightarrow> string \<Rightarrow> task_type \<Rightarrow> task" where
  "Task i n ty = \<lparr>task_id = i, task_name = n, task_type = ty, task_config = [],
     task_dependencies = [], task_retry_policy = [], task_timeout = None\<rparr>"

text \<open>The exceptions the modelled code raises.  The two \<^verbatim>\<open>ValueError\<close>s of the engine are
  kept apart by constructor; \<open>Raised\<close> stands for an exception of a collaborator (a handler,
  the pydantic constructor) with its message.\<close>

datatype error =
    ValueError_process_not_found string
  | ValueError_no_handler task_type
  | TypeError
  | AttributeError
  | KeyError
  | ValidationError
  | RecursionError
  | Raised string

definition dict_get :: "('k \<times> 'v) list \<Rightarrow> 'k \<Rightarrow> 'v \<Rightarrow> 'v" where
  "dict_get d k dflt = (case map_of d k of None \<Rightarrow> dflt | Some v \<Rightarrow> v)"

definition dict_set :: "('k \<times> 'v) list \<Rightarrow> 'k \<Rightarrow> 'v \<Rightarrow> ('k \<times> 'v) list" where
  "dict_set d k v = AList.update k v d"

section \<open>Python comparison operators on values\<close>

fun num_of :: "pyval \<Rightarrow> real option" where
  "num_of (VBool b) = Some (if b then 1 else 0)"
| "num_of (VInt i) = Some (real_of_int i)"
| "num_of (VFloat r) = Some r"
| "num_of _ = None"

fun str_lt :: "string \<Rightarrow> string \<Rightarrow> bool" where
  "str_lt [] [] = False"
| "str_lt [] (y # ys) = True"
| "str_lt (x # xs) [] = False"
| "str_lt (x # xs) (y # ys) = (if x = y then str_lt xs ys else (of_char x :: nat) < of_char y)"

text \<open>\<^verbatim>\<open>a == b\<close>: numbers (with \<^verbatim>\<open>bool\<close>) compare by value, strings and \<^verbatim>\<open>None\<close> by
  identity of content, lists elementwise, dictionaries key by key; values of different
  kinds are unequal.\<close>

fun py_eq :: "pyval \<Rightarrow> pyval \<Rightarrow> bool" where
  "py_eq (VList xs) (VList ys) = list_all2 py_eq xs ys"
| "py_eq (VDict kvs) (VDict kws) =
     (set (map fst kvs) = set (map fst kws) \<and>
      (\<forall>(k, v) \<in> set kvs. \<forall>(k', w) \<in> set kws. k = k' \<longrightarrow> py_eq v w))"
| "py_eq VNone VNone = True"
| "py_eq (VStr s) (VStr t) = (s = t)"
| "py_eq a b = (case (num_of a, num_of b) of (Some x, Some y) \<Rightarrow> x = y | _ \<Rightarrow> False)"

text \<open>\<^verbatim>\<open>a < b\<close>: defined between numbers, between strings and between lists (first
  differing element decides); every other combination raises \<^verbatim>\<open>TypeError\<close>.\<close>

fun py_lt :: "pyval \<Rightarrow> pyval \<Rightarrow> error + bool" where
  "py_lt (VList []) (VList []) = Inr False"
| "py_lt (VList []) (VList (y # ys)) = Inr True"
| "py_lt (VList (x # xs)) (VList []) = Inr False"
| "py_lt (VList (x # xs)) (VList (y # ys)) =
     (if py_eq x y then py_lt (VList xs) (VList ys) else py_lt x y)"
| "py_lt (VStr s) (VStr t) = Inr (str_lt s t)"
| "py_lt a b = (case (num_of a, num_of b) of (Some x, Some y) \<Rightarrow> Inr (x < y) | _ \<Rightarrow> Inl TypeError)"

definition py_gt :: "pyval \<Rightarrow> pyval \<Rightarrow> error + bool" where
  "py_gt a b = py_lt b a"

definition py_le :: "pyval \<Rightarrow> pyval \<Rightarrow> error + bool" where
  "py_le a b = (case py_lt a b of Inl e \<Rightarrow> Inl e | Inr r \<Rightarrow> Inr (r \<or> py_eq a b))"

definition py_ge :: "pyval \<Rightarrow> pyval \<Rightarrow> error + bool" where
  "py_ge a b = py_le b a"

text \<open>\<^verbatim>\<open>a + 1\<close> as the retry counter uses it.\<close>

fun py_add1 :: "pyval \<Rightarrow> error + pyval" where
  "py_add1 (VBool b) = Inr (VInt ((if b then 1 else 0) + 1))"
| "py_add1 (VInt i) = Inr (VInt (i + 1))"
| "py_add1 (VFloat r) = Inr (VFloat (r + 1))"
| "py_add1 _ = Inl TypeError"

section \<open>Condition evaluator\<close>

text \<open>
  \<^verbatim>\<open>_get_variable_value(expr, variables)\<close>: \<^verbatim>\<open>expr.startswith("$")\<close> exists on strings only;
  on any other value the attribute lookup raises \<^verbatim>\<open>AttributeError\<close>.
\<close>

definition get_variable_value :: "pyval \<Rightarrow> pydict \<Rightarrow> error + pyval" where
  "get_variable_value expr variables =
     (case expr of
        VStr s \<Rightarrow>
          (case s of
             c # var_name \<Rightarrow> if c = CHR ''$'' then Inr (dict_get variables var_name VNone) else Inr expr
           | [] \<Rightarrow> Inr expr)
      | _ \<Rightarrow> Inl AttributeError)"

definition evaluate_condition :: "pydict \<Rightarrow> pydict \<Rightarrow> error + bool" where
  "evaluate_condition condition variables =
     (let operator = dict_get condition ''operator'' (VStr ''eq'');
          left = dict_get condition ''left'' (VStr '''');
          right = dict_get condition ''right'' (VStr '''')
      in case get_variable_value left variables of
           Inl e \<Rightarrow> Inl e
         | Inr left_value \<Rightarrow>
             (case get_variable_value right variables of
                Inl e \<Rightarrow> Inl e
              | Inr right_value \<Rightarrow>
                  if operator = VStr ''eq'' then Inr (py_eq left_value right_value)
                  else if operator = VStr ''ne'' then Inr (\<not> py_eq left_value right_value)
                  else if operator = VStr ''gt'' then py_gt left_value right_value
                  else if operator = VStr ''lt'' then py_lt left_value right_value
                  else if operator = VStr ''gte'' then py_ge left_value right_value
                  else if operator = VStr ''lte'' then py_le left_value right_value
                  else Inr False))"

section \<open>Dependency scheduler\<close>

text \<open>
  \<^verbatim>\<open>_get_execution_order\<close>: the nested function \<^verbatim>\<open>visit\<close> with its two captured variables
  \<^verbatim>\<open>visited\<close> (a set of identifiers) and \<^verbatim>\<open>order\<close> (a list of tasks), passed here as a
  pair.  \<open>visit_deps\<close> is the loop over \<^verbatim>\<open>task.dependencies\<close>; the generator expression
  \<^verbatim>\<open>next((t for t in tasks if t.id == dep_id), None)\<close> is \<open>find\<close>.

  \<^verbatim>\<open>visit\<close> calls itself once per dependency level, and the interpreter raises
  \<^verbatim>\<open>RecursionError\<close> when a call would exceed its frame limit.  The first argument of
  \<open>visit\<close> is the number of frames still available to the call, that of \<open>visit_deps\<close> the
  number available above the frame of the running \<^verbatim>\<open>visit\<close>.  A call of \<^verbatim>\<open>visit\<close> takes
  one frame; looking a dependency up takes one more, for the generator expression, while
  the lookup runs.  Nothing in \<^verbatim>\<open>_get_execution_order\<close> catches the error: it leaves the
  function, and the captured variables are lost with it.
\<close>

function (sequential)
  visit :: "nat \<Rightarrow> task list \<Rightarrow> task \<Rightarrow> string set \<times> task list \<Rightarrow> error + string set \<times> task list"
  and visit_deps ::
    "nat \<Rightarrow> task list \<Rightarrow> string list \<Rightarrow> string set \<times> task list \<Rightarrow> error + string set \<times> task list"
where
  "visit 0 tasks t st = Inl RecursionError"
| "visit (Suc d) tasks t (visited, order) =
     (if task_id t \<in> visited then Inr (visited, order)
      else (case visit_deps d tasks (task_dependencies t) (insert (task_id t) visited, order) of
              Inl err \<Rightarrow> Inl err
            | Inr (visited', order') \<Rightarrow> Inr (visited', order' @ [t])))"
| "visit_deps d tasks [] st = Inr st"
| "visit_deps 0 tasks (dep_id # rest) st = Inl RecursionError"
| "visit_deps (Suc d) tasks (dep_id # rest) st =
     (case find (\<lambda>t. task_id t = dep_id) tasks of
        None \<Rightarrow> visit_deps (Suc d) tasks rest st
      | Some dep_task \<Rightarrow>
          (case visit (Suc d) tasks dep_task st of
             Inl err \<Rightarrow> Inl err
           | Inr st1 \<Rightarrow> visit_deps (Suc d) tasks rest st1))"
  by pat_completeness auto

termination visit
  by (relation "inv_image (less_than <*lex*> less_than <*lex*> less_than)
       (\<lambda>x. case x of
          Inl (d, tasks, t, st) \<Rightarrow> (d, 0::nat, 0::nat)
        | Inr (d, tasks, ds, st) \<Rightarrow> (d, 1, length ds))") auto

text \<open>The loop \<^verbatim>\<open>for task in tasks: visit(task)\<close>.\<close>

fun visit_all ::
  "nat \<Rightarrow> task list \<Rightarrow> task list \<Rightarrow> string set \<times> task list \<Rightarrow> error + string set \<times> task list"
where
  "visit_all d tasks [] st = Inr st"
| "visit_all d tasks (t # ts) st =
     (case visit d tasks t st of
        Inl err \<Rightarrow> Inl err
      | Inr st1 \<Rightarrow> visit_all d tasks ts st1)"

text \<open>\<open>depth\<close> is the number of frames the interpreter still allows to the calls made from
  the frame of \<^verbatim>\<open>_get_execution_order\<close>.\<close>

definition get_execution_order :: "nat \<Rightarrow> task list \<Rightarrow> error + task list" where
  "get_execution_order depth tasks =
     (case visit_all depth tasks tasks ({}, []) of
        Inl err \<Rightarrow> Inl err
      | Inr (visited, order) \<Rightarrow> Inr order)"




section \<open>Task results, process definitions, instances\<close>

text \<open>
  A \<^verbatim>\<open>TaskResult\<close> is a mutable object: \<^verbatim>\<open>_execute_task\<close> stores it in
  \<^verbatim>\<open>instance.task_results\<close> and assigns to its fields afterwards.  Results therefore live
  in a store (\<open>heap\<close>) and the instance holds their addresses.  The value a handler
  returns is either a plain value or, for the sequence handler, the list of the
  sub-tasks' result objects.  \<^verbatim>\<open>result.error = str(e)\<close> is recorded as the exception itself.
\<close>

type_synonym addr = nat

type_synonym timestamp = int

datatype handler_output = Plain pyval | Results "addr list"

record task_result =
  tr_status :: task_status
  tr_output :: handler_output
  tr_error :: "error option"
  tr_started_at :: "timestamp option"
  tr_completed_at :: "timestamp option"

definition TaskResult :: "task_status \<Rightarrow> timestamp option \<Rightarrow> task_result" where
  "TaskResult s started = \<lparr>tr_status = s, tr_output = Plain VNone, tr_error = None,
     tr_started_at = started, tr_completed_at = None\<rparr>"

record process_definition =
  pd_id :: string
  pd_name :: string
  pd_version :: string
  pd_description :: "string option"
  pd_tasks :: "task list"
  pd_variables :: pydict
  pd_triggers :: "pydict list"
  pd_metadata :: pydict

text \<open>
  \<^verbatim>\<open>ProcessDefinition(id=..., name=..., tasks=[...], ...)\<close>.  The class body declares
  eight typed fields and no validator, so the constructor pydantic generates stores
  well-typed arguments as they are; an omitted optional argument takes its default.
\<close>

definition ProcessDefinition ::
  "string \<Rightarrow> string \<Rightarrow> string option \<Rightarrow> string option \<Rightarrow> task list \<Rightarrow> pydict option \<Rightarrow>
   pydict list option \<Rightarrow> pydict option \<Rightarrow> error + process_definition" where
  "ProcessDefinition i n ver descr ts vars trig meta =
     Inr \<lparr>pd_id = i, pd_name = n,
          pd_version = (case ver of None \<Rightarrow> ''1.0.0'' | Some v \<Rightarrow> v),
          pd_description = descr,
          pd_tasks = ts,
          pd_variables = (case vars of None \<Rightarrow> [] | Some v \<Rightarrow> v),
          pd_triggers = (case trig of None \<Rightarrow> [] | Some v \<Rightarrow> v),
          pd_metadata = (case meta of None \<Rightarrow> [] | Some v \<Rightarrow> v)\<rparr>"

record workflow_instance =
  wi_id :: string
  wi_process_id :: string
  wi_status :: task_status
  wi_variables :: pydict
  wi_task_results :: "(string \<times> addr) list"
  wi_created_at :: timestamp
  wi_updated_at :: timestamp

section \<open>The engine and its environment\<close>

text \<open>
  A handler is a callable \<^verbatim>\<open>handler(task, instance)\<close>.  The sequence handler, which calls
  back into \<^verbatim>\<open>_execute_task\<close>, is embedded (\<open>Sequence_handler\<close>).  Every other handler is
  an \<open>External\<close> function of the task and the live instance that returns a value or raises
  and may rebind the instance's fields; it does not reach the result objects or the
  engine.  The default handlers for API calls, transformations, decisions and
  notifications are such functions; the parallel handler (\<^verbatim>\<open>asyncio.gather\<close>) runs its
  sub-tasks concurrently, which a sequential model does not express, so its table entry is
  a parameter as well.
\<close>

datatype handler =
    External "task \<Rightarrow> workflow_instance \<Rightarrow> (error + pyval) \<times> workflow_instance"
  | Sequence_handler

record engine =
  processes :: "(string \<times> process_definition) list"
  instances :: "(string \<times> workflow_instance) list"
  task_handlers :: "(task_type \<times> handler) list"

definition register_default_handlers ::
  "(task \<Rightarrow> workflow_instance \<Rightarrow> (error + pyval) \<times> workflow_instance) \<Rightarrow>
   (task \<Rightarrow> workflow_instance \<Rightarrow> (error + pyval) \<times> workflow_instance) \<Rightarrow>
   (task \<Rightarrow> workflow_instance \<Rightarrow> (error + pyval) \<times> workflow_instance) \<Rightarrow>
   (task \<Rightarrow> workflow_instance \<Rightarrow> (error + pyval) \<times> workflow_instance) \<Rightarrow>
   (task \<Rightarrow> workflow_instance \<Rightarrow> (error + pyval) \<times> workflow_instance) \<Rightarrow>
   (task_type \<times> handler) list" where
  "register_default_handlers handle_api_call handle_transformation handle_decision
     handle_notification handle_parallel =
     [(API_CALL, External handle_api_call),
      (TRANSFORMATION, External handle_transformation),
      (DECISION, External handle_decision),
      (NOTIFICATION, External handle_notification),
      (PARALLEL, External handle_parallel),
      (SEQUENCE, Sequence_handler)]"

text \<open>\<^verbatim>\<open>WorkflowEngine()\<close>: empty registries and the default handlers.\<close>

definition WorkflowEngine ::
  "(task \<Rightarrow> workflow_instance \<Rightarrow> (error + pyval) \<times> workflow_instance) \<Rightarrow>
   (task \<Rightarrow> workflow_instance \<Rightarrow> (error + pyval) \<times> workflow_instance) \<Rightarrow>
   (task \<Rightarrow> workflow_instance \<Rightarrow> (error + pyval) \<times> workflow_instance) \<Rightarrow>
   (task \<Rightarrow> workflow_instance \<Rightarrow> (error + pyval) \<times> workflow_instance) \<Rightarrow>
   (task \<Rightarrow> workflow_instance \<Rightarrow> (error + pyval) \<times> workflow_instance) \<Rightarrow> engine" where
  "WorkflowEngine handle_api_call handle_transformation handle_decision handle_notification
     handle_parallel =
     \<lparr>processes = [], instances = [],
      task_handlers = register_default_handlers handle_api_call handle_transformation
        handle_decision handle_notification handle_parallel\<rparr>"

text \<open>
  The interpreter state the engine runs in: the store of result objects, the number of
  clock readings taken so far, the coroutines handed to \<^verbatim>\<open>asyncio.create_task\<close>, and
  \<open>calls\<close>, an invocation log that records the task of every handler invocation (it is
  not visible to the code and only serves to state how often a handler ran).
\<close>

record runtime =
  heap :: "addr \<Rightarrow> task_result option"
  next_addr :: addr
  clock :: nat
  scheduled :: "string list"
  calls :: "task list"

text \<open>
  What the code takes from outside the repository: the system clock (\<open>utcnow k\<close> is the
  \<open>k\<close>-th reading of \<^verbatim>\<open>datetime.utcnow()\<close>), the rendering of a timestamp inside the
  instance identifier, the constructor pydantic generates for \<^verbatim>\<open>Task(**kwargs)\<close>,
  whose validation and coercion rules belong to that library, and \<open>frames\<close>, the number
  of frames the interpreter still allows above the frame of \<^verbatim>\<open>_get_execution_order\<close>
  when \<^verbatim>\<open>_execute_instance\<close> calls it (its recursion limit less the frames in use).
\<close>

record env =
  utcnow :: "nat \<Rightarrow> timestamp"
  timestamp_str :: "timestamp \<Rightarrow> string"
  Task_init :: "pydict \<Rightarrow> error + task"
  frames :: nat

type_synonym xstate = "workflow_instance \<times> runtime"

definition now :: "env \<Rightarrow> runtime \<Rightarrow> timestamp \<times> runtime" where
  "now e rt = (utcnow e (clock rt), rt\<lparr>clock := Suc (clock rt)\<rparr>)"

definition new_result :: "task_result \<Rightarrow> runtime \<Rightarrow> addr \<times> runtime" where
  "new_result r rt =
     (next_addr rt, rt\<lparr>heap := (heap rt)(next_addr rt \<mapsto> r), next_addr := Suc (next_addr rt)\<rparr>)"

definition mutate :: "addr \<Rightarrow> (task_result \<Rightarrow> task_result) \<Rightarrow> runtime \<Rightarrow> runtime" where
  "mutate a f rt = rt\<lparr>heap := (heap rt)(a := map_option f (heap rt a))\<rparr>"

definition result_status :: "xstate \<Rightarrow> addr \<Rightarrow> task_status option" where
  "result_status st a = map_option tr_status (heap (snd st) a)"

text \<open>The result recorded for a task identifier: \<^verbatim>\<open>instance.task_results.get(id)\<close>.\<close>

definition recorded :: "xstate \<Rightarrow> string \<Rightarrow> task_result option" where
  "recorded st i = (case map_of (wi_task_results (fst st)) i of
                      None \<Rightarrow> None | Some a \<Rightarrow> heap (snd st) a)"

section \<open>Engine facade\<close>

definition register_process :: "engine \<Rightarrow> process_definition \<Rightarrow> engine" where
  "register_process eng process =
     eng\<lparr>processes := dict_set (processes eng) (pd_id process) process\<rparr>"

text \<open>\<^verbatim>\<open>{**process.variables, **(variables or {})}\<close>\<close>

definition dict_merge :: "pydict \<Rightarrow> pydict \<Rightarrow> pydict" where
  "dict_merge base overrides = fold (\<lambda>(k, v) d. dict_set d k v) overrides base"

text \<open>
  \<^verbatim>\<open>start_process\<close>.  The clock is read once for the identifier and once for each of
  the two timestamp defaults of \<^verbatim>\<open>WorkflowInstance\<close>.  \<^verbatim>\<open>asyncio.create_task\<close> only
  schedules \<^verbatim>\<open>_execute_instance\<close>; the run itself is \<open>execute_instance\<close> below.
\<close>

definition start_process ::
  "env \<Rightarrow> string \<Rightarrow> pydict option \<Rightarrow> engine \<times> runtime \<Rightarrow> (error + string) \<times> (engine \<times> runtime)" where
  "start_process e process_id variables st =
     (case st of (eng, rt) \<Rightarrow>
        (case map_of (processes eng) process_id of
           None \<Rightarrow> (Inl (ValueError_process_not_found process_id), (eng, rt))
         | Some process \<Rightarrow>
             (case now e rt of (t0, rt0) \<Rightarrow>
              case now e rt0 of (t1, rt1) \<Rightarrow>
              case now e rt1 of (t2, rt2) \<Rightarrow>
                (let instance = \<lparr>wi_id = process_id @ ''_'' @ timestamp_str e t0,
                         wi_process_id = process_id,
                         wi_status = PENDING,
                         wi_variables = dict_merge (pd_variables process)
                            (case variables of None \<Rightarrow> [] | Some vs \<Rightarrow> vs),
                         wi_task_results = [],
                         wi_created_at = t1,
                         wi_updated_at = t2\<rparr>
                 in (Inr (wi_id instance),
                     (eng\<lparr>instances := dict_set (instances eng) (wi_id instance) instance\<rparr>,
                      rt2\<lparr>scheduled := scheduled rt2 @ [wi_id instance]\<rparr>))))))"

definition get_instance_status :: "engine \<Rightarrow> string \<Rightarrow> workflow_instance option" where
  "get_instance_status eng instance_id = map_of (instances eng) instance_id"

definition cancel_instance :: "engine \<Rightarrow> string \<Rightarrow> bool \<times> engine" where
  "cancel_instance eng instance_id =
     (case map_of (instances eng) instance_id of
        None \<Rightarrow> (False, eng)
      | Some instance \<Rightarrow>
          if wi_status instance = RUNNING
          then (True, eng\<lparr>instances :=
                  dict_set (instances eng) instance_id (instance\<lparr>wi_status := CANCELLED\<rparr>)\<rparr>)
          else (False, eng))"

section \<open>Executor\<close>

text \<open>The dependency check at the head of \<^verbatim>\<open>_execute_task\<close>: a dependency passes when a
  result is recorded for it and its status is \<^verbatim>\<open>COMPLETED\<close>.\<close>

definition dep_completed :: "xstate \<Rightarrow> string \<Rightarrow> bool" where
  "dep_completed st dep_id =
     (case recorded st dep_id of None \<Rightarrow> False | Some r \<Rightarrow> tr_status r = COMPLETED)"

definition set_result :: "string \<Rightarrow> addr \<Rightarrow> workflow_instance \<Rightarrow> workflow_instance" where
  "set_result i a inst = inst\<lparr>wi_task_results := dict_set (wi_task_results inst) i a\<rparr>"

text \<open>\<^verbatim>\<open>result = TaskResult(status=SKIPPED); instance.task_results[task.id] = result\<close>\<close>

definition skip_task :: "task \<Rightarrow> xstate \<Rightarrow> addr \<times> xstate" where
  "skip_task task st =
     (case st of (inst, rt) \<Rightarrow>
        case new_result (TaskResult SKIPPED None) rt of
          (a, rt1) \<Rightarrow> (a, (set_result (task_id task) a inst, rt1)))"

text \<open>\<^verbatim>\<open>result = TaskResult(status=RUNNING, started_at=utcnow());
  instance.task_results[task.id] = result\<close>\<close>

definition start_task :: "env \<Rightarrow> task \<Rightarrow> xstate \<Rightarrow> addr \<times> xstate" where
  "start_task e task st =
     (case st of (inst, rt) \<Rightarrow>
        case now e rt of (t, rt0) \<Rightarrow>
        case new_result (TaskResult RUNNING (Some t)) rt0 of
          (a, rt1) \<Rightarrow> (a, (set_result (task_id task) a inst, rt1)))"

text \<open>The three assignments after a successful handler call, and the three of the
  \<^verbatim>\<open>except\<close> branch.  They act on the object created by this call of \<^verbatim>\<open>_execute_task\<close>,
  whatever \<^verbatim>\<open>instance.task_results\<close> holds by then.\<close>

definition complete_task :: "env \<Rightarrow> addr \<Rightarrow> handler_output \<Rightarrow> xstate \<Rightarrow> xstate" where
  "complete_task e a out st =
     (case st of (inst, rt) \<Rightarrow>
        case now e (mutate a (\<lambda>r. r\<lparr>tr_status := COMPLETED, tr_output := out\<rparr>) rt) of
          (t, rt1) \<Rightarrow> (inst, mutate a (\<lambda>r. r\<lparr>tr_completed_at := Some t\<rparr>) rt1))"

definition fail_task :: "env \<Rightarrow> addr \<Rightarrow> error \<Rightarrow> xstate \<Rightarrow> xstate" where
  "fail_task e a err st =
     (case st of (inst, rt) \<Rightarrow>
        case now e (mutate a (\<lambda>r. r\<lparr>tr_status := FAILED, tr_error := Some err\<rparr>) rt) of
          (t, rt1) \<Rightarrow> (inst, mutate a (\<lambda>r. r\<lparr>tr_completed_at := Some t\<rparr>) rt1))"

text \<open>\<^verbatim>\<open>for subtask_config in subtasks\<close>: what iterating a configuration value yields.\<close>

fun py_iter :: "pyval \<Rightarrow> error + pyval list" where
  "py_iter (VList xs) = Inr xs"
| "py_iter (VDict kvs) = Inr (map (\<lambda>kv. VStr (fst kv)) kvs)"
| "py_iter (VStr s) = Inr (map (\<lambda>c. VStr [c]) s)"
| "py_iter _ = Inl TypeError"

text \<open>\<^verbatim>\<open>Task(**subtask_config)\<close>: the argument of \<^verbatim>\<open>**\<close> must be a mapping.\<close>

definition Task_kwargs :: "env \<Rightarrow> pyval \<Rightarrow> error + task" where
  "Task_kwargs e c = (case c of VDict kwargs \<Rightarrow> Task_init e kwargs | _ \<Rightarrow> Inl TypeError)"

text \<open>\<^verbatim>\<open>await asyncio.sleep(delay)\<close> compares the delay with zero, which fails on a value
  that is not a number.\<close>

definition asyncio_sleep :: "pyval \<Rightarrow> error + unit" where
  "asyncio_sleep delay = (case num_of delay of None \<Rightarrow> Inl TypeError | Some d \<Rightarrow> Inr ())"

text \<open>
  \<^verbatim>\<open>_execute_task\<close>, the body of its \<^verbatim>\<open>try\<close> block (\<open>invoke_handler\<close>), the loop of
  \<^verbatim>\<open>_handle_sequence\<close> and \<^verbatim>\<open>_handle_retry\<close> call one another.  Retrying re-enters
  \<^verbatim>\<open>_execute_task\<close> for as long as the counter kept in the instance variables stays below
  \<^verbatim>\<open>max_retries\<close>, and a handler may reset that counter, so the recursion need not end.
  The first argument bounds the nesting depth of \<^verbatim>\<open>_execute_task\<close> calls; \<open>None\<close> means
  the bound was reached.  An exception that leaves a function is \<open>Some (Inl err, _)\<close>.
\<close>

function (sequential) execute_task ::
    "nat \<Rightarrow> env \<Rightarrow> (task_type \<times> handler) list \<Rightarrow> task \<Rightarrow> xstate \<Rightarrow> ((error + addr) \<times> xstate) option"
  and invoke_handler ::
    "nat \<Rightarrow> env \<Rightarrow> (task_type \<times> handler) list \<Rightarrow> task \<Rightarrow> xstate \<Rightarrow>
     ((error + handler_output) \<times> xstate) option"
  and sequence_loop ::
    "nat \<Rightarrow> env \<Rightarrow> (task_type \<times> handler) list \<Rightarrow> pyval list \<Rightarrow> addr list \<Rightarrow> xstate \<Rightarrow>
     ((error + handler_output) \<times> xstate) option"
  and handle_retry ::
    "nat \<Rightarrow> env \<Rightarrow> (task_type \<times> handler) list \<Rightarrow> task \<Rightarrow> xstate \<Rightarrow> ((error + unit) \<times> xstate) option"
where
  "execute_task 0 e hs task st = None"
| "execute_task (Suc n) e hs task st =
     (if \<not> list_all (dep_completed st) (task_dependencies task)
      then (case skip_task task st of (a, st1) \<Rightarrow> Some (Inr a, st1))
      else (case start_task e task st of
              (a, st1) \<Rightarrow>
                (case invoke_handler n e hs task st1 of
                   None \<Rightarrow> None
                 | Some (Inr out, st2) \<Rightarrow> Some (Inr a, complete_task e a out st2)
                 | Some (Inl err, st2) \<Rightarrow>
                     if task_retry_policy task \<noteq> []
                     then (case handle_retry n e hs task (fail_task e a err st2) of
                             None \<Rightarrow> None
                           | Some (Inl err', st4) \<Rightarrow> Some (Inl err', st4)
                           | Some (Inr u, st4) \<Rightarrow> Some (Inr a, st4))
                     else Some (Inr a, fail_task e a err st2))))"
| "invoke_handler n e hs task (inst, rt) =
     (case map_of hs (task_type task) of
        None \<Rightarrow> Some (Inl (ValueError_no_handler (task_type task)), (inst, rt))
      | Some (External f) \<Rightarrow>
          (case f task inst of
             (Inl err, inst1) \<Rightarrow> Some (Inl err, (inst1, rt\<lparr>calls := calls rt @ [task]\<rparr>))
           | (Inr v, inst1) \<Rightarrow> Some (Inr (Plain v), (inst1, rt\<lparr>calls := calls rt @ [task]\<rparr>)))
      | Some Sequence_handler \<Rightarrow>
          (case py_iter (dict_get (task_config task) ''tasks'' (VList [])) of
             Inl err \<Rightarrow> Some (Inl err, (inst, rt\<lparr>calls := calls rt @ [task]\<rparr>))
           | Inr subtasks \<Rightarrow>
               sequence_loop n e hs subtasks [] (inst, rt\<lparr>calls := calls rt @ [task]\<rparr>)))"
| "sequence_loop n e hs [] results st = Some (Inr (Results results), st)"
| "sequence_loop n e hs (subtask_config # rest) results st =
     (case Task_kwargs e subtask_config of
        Inl err \<Rightarrow> Some (Inl err, st)
      | Inr subtask \<Rightarrow>
          (case execute_task n e hs subtask st of
             None \<Rightarrow> None
           | Some (Inl err, st1) \<Rightarrow> Some (Inl err, st1)
           | Some (Inr a, st1) \<Rightarrow>
               if result_status st1 a = Some FAILED
               then Some (Inr (Results (results @ [a])), st1)
               else sequence_loop n e hs rest (results @ [a]) st1))"
| "handle_retry n e hs task (inst, rt) =
     (let max_retries = dict_get (task_retry_policy task) ''max_retries'' (VInt 3);
          delay = dict_get (task_retry_policy task) ''delay'' (VInt 5);
          retry_key = task_id task @ ''_retries'';
          current_retries = dict_get (wi_variables inst) retry_key (VInt 0)
      in case py_lt current_retries max_retries of
           Inl err \<Rightarrow> Some (Inl err, (inst, rt))
         | Inr below \<Rightarrow>
             if \<not> below then Some (Inr (), (inst, rt))
             else (case py_add1 current_retries of
                     Inl err \<Rightarrow> Some (Inl err, (inst, rt))
                   | Inr c \<Rightarrow>
                       (case asyncio_sleep delay of
                          Inl err \<Rightarrow>
                            Some (Inl err,
                               (inst\<lparr>wi_variables := dict_set (wi_variables inst) retry_key c\<rparr>, rt))
                        | Inr u \<Rightarrow>
                            (case execute_task n e hs task
                                    (inst\<lparr>wi_variables := dict_set (wi_variables inst) retry_key c\<rparr>, rt) of
                               None \<Rightarrow> None
                             | Some (Inl err, st1) \<Rightarrow> Some (Inl err, st1)
                             | Some (Inr a, st1) \<Rightarrow> Some (Inr (), st1)))))"
  by pat_completeness auto

termination execute_task
  by (relation "inv_image (less_than <*lex*> less_than <*lex*> less_than)
       (\<lambda>x. case x of
          Inl (Inl (n, e, hs, task, st)) \<Rightarrow> (n, 0::nat, 0::nat)
        | Inl (Inr (n, e, hs, task, st)) \<Rightarrow> (n, 2, 0)
        | Inr (Inl (n, e, hs, cs, results, st)) \<Rightarrow> (n, 1, length cs)
        | Inr (Inr (n, e, hs, task, st)) \<Rightarrow> (n, 1, 0))") auto

text \<open>The \<^verbatim>\<open>for\<close> loop of \<^verbatim>\<open>_execute_instance\<close> over the scheduled tasks.\<close>

fun run_tasks ::
  "nat \<Rightarrow> env \<Rightarrow> (task_type \<times> handler) list \<Rightarrow> task list \<Rightarrow> xstate \<Rightarrow> ((error + unit) \<times> xstate) option"
where
  "run_tasks n e hs [] st = Some (Inr (), st)"
| "run_tasks n e hs (task # rest) st =
     (if wi_status (fst st) = CANCELLED then Some (Inr (), st)
      else (case execute_task n e hs task st of
              None \<Rightarrow> None
            | Some (Inl err, st1) \<Rightarrow> Some (Inl err, st1)
            | Some (Inr a, st1) \<Rightarrow> run_tasks n e hs rest st1))"

text \<open>
  \<^verbatim>\<open>_execute_instance\<close>.  The two dictionary reads before the \<^verbatim>\<open>try\<close> raise
  \<^verbatim>\<open>KeyError\<close> out of the coroutine; inside the \<^verbatim>\<open>try\<close> every exception, the
  \<^verbatim>\<open>RecursionError\<close> of the scheduler included, sets the status \<^verbatim>\<open>FAILED\<close>; the
  \<^verbatim>\<open>finally\<close> clause stamps \<^verbatim>\<open>updated_at\<close>.  The instance is an object of
  the engine's \<^verbatim>\<open>instances\<close> dictionary, so the run's changes are written back there.
\<close>

definition finish_instance ::
  "env \<Rightarrow> string \<Rightarrow> engine \<Rightarrow> workflow_instance \<Rightarrow> runtime \<Rightarrow> (error + unit) \<times> (engine \<times> runtime)" where
  "finish_instance e instance_id eng inst rt =
     (case now e rt of
        (t, rt1) \<Rightarrow>
          (Inr (), (eng\<lparr>instances := dict_set (instances eng) instance_id (inst\<lparr>wi_updated_at := t\<rparr>)\<rparr>,
                    rt1)))"

definition execute_instance ::
  "nat \<Rightarrow> env \<Rightarrow> string \<Rightarrow> engine \<times> runtime \<Rightarrow> ((error + unit) \<times> (engine \<times> runtime)) option" where
  "execute_instance n e instance_id st =
     (case st of (eng, rt) \<Rightarrow>
        (case map_of (instances eng) instance_id of
           None \<Rightarrow> Some (Inl KeyError, (eng, rt))
         | Some instance \<Rightarrow>
             (case map_of (processes eng) (wi_process_id instance) of
                None \<Rightarrow> Some (Inl KeyError, (eng, rt))
              | Some process \<Rightarrow>
                  (case get_execution_order (frames e) (pd_tasks process) of
                     Inl err \<Rightarrow>
                       Some (finish_instance e instance_id eng
                               (instance\<lparr>wi_status := FAILED\<rparr>) rt)
                   | Inr order \<Rightarrow>
                       (case run_tasks n e (task_handlers eng) order
                               (instance\<lparr>wi_status := RUNNING\<rparr>, rt) of
                          None \<Rightarrow> None
                        | Some (Inr u, (inst1, rt1)) \<Rightarrow>
                            Some (finish_instance e instance_id eng
                                    (if wi_status inst1 \<noteq> CANCELLED
                                     then inst1\<lparr>wi_status := COMPLETED\<rparr> else inst1) rt1)
                        | Some (Inl err, (inst1, rt1)) \<Rightarrow>
                            Some (finish_instance e instance_id eng
                                    (inst1\<lparr>wi_status := FAILED\<rparr>) rt1))))))"

section \<open>Concrete inputs used by the examples\<close>

definition chain_tasks :: "task list" where
  "chain_tasks = [(Task ''B'' ''second'' NOTIFICATION)\<lparr>task_dependencies := [''A'']\<rparr>,
                  Task ''A'' ''first'' NOTIFICATION]"

definition twin_tasks :: "task list" where
  "twin_tasks = [Task ''A'' ''first'' NOTIFICATION, Task ''A'' ''second'' NOTIFICATION]"

definition deep_chain_tasks :: "task list" where
  "deep_chain_tasks = [(Task ''C'' ''third'' NOTIFICATION)\<lparr>task_dependencies := [''B'']\<rparr>,
                       (Task ''B'' ''second'' NOTIFICATION)\<lparr>task_dependencies := [''A'']\<rparr>,
                       Task ''A'' ''first'' NOTIFICATION]"




definition cycle_tasks :: "task list" where
  "cycle_tasks = [(Task ''A'' ''first'' NOTIFICATION)\<lparr>task_dependencies := [''B'']\<rparr>,
                  (Task ''B'' ''second'' NOTIFICATION)\<lparr>task_dependencies := [''A'']\<rparr>]"


definition sample_process :: "string \<Rightarrow> task list \<Rightarrow> process_definition" where
  "sample_process n ts = \<lparr>pd_id = ''P'', pd_name = n, pd_version = ''1.0.0'',
     pd_description = None, pd_tasks = ts, pd_variables = [], pd_triggers = [],
     pd_metadata = []\<rparr>"

definition fresh_runtime :: runtime where
  "fresh_runtime = \<lparr>heap = Map.empty, next_addr = 0, clock = 0, scheduled = [], calls = []\<rparr>"

text \<open>An interpreter state whose only result object, at address \<open>0\<close>, is a skipped one.\<close>

definition skipped_runtime :: runtime where
  "skipped_runtime =
     \<lparr>heap = [0 \<mapsto> \<lparr>tr_status = SKIPPED, tr_output = Plain VNone, tr_error = None,
                        tr_started_at = None, tr_completed_at = None\<rparr>],
      next_addr = 1, clock = 0, scheduled = [], calls = []\<rparr>"

definition task_type_of :: "string \<Rightarrow> task_type option" where
  "task_type_of s = map_of [(''api_call'', API_CALL), (''transformation'', TRANSFORMATION),
     (''decision'', DECISION), (''notification'', NOTIFICATION), (''human_task'', HUMAN_TASK),
     (''script'', SCRIPT), (''parallel'', PARALLEL), (''sequence'', SEQUENCE)] s"

text \<open>An environment for concrete runs: a clock that advances by one per
  reading, a constructor that accepts descriptors with string \<^verbatim>\<open>id\<close>, \<^verbatim>\<open>name\<close> and
  \<^verbatim>\<open>type\<close>, and an allowance of a thousand frames.\<close>

definition sample_Task_init :: "pydict \<Rightarrow> error + task" where
  "sample_Task_init kwargs =
     (case (map_of kwargs ''id'', map_of kwargs ''name'', map_of kwargs ''type'') of
        (Some (VStr i), Some (VStr n), Some (VStr ty)) \<Rightarrow>
          (case task_type_of ty of
             Some t \<Rightarrow> Inr (Task i n t)
           | None \<Rightarrow> Inl ValidationError)
      | _ \<Rightarrow> Inl ValidationError)"

definition sample_env :: env where
  "sample_env = \<lparr>utcnow = (\<lambda>k. int k), timestamp_str = (\<lambda>t. ''0.0''),
     Task_init = sample_Task_init, frames = 1000\<rparr>"

definition sample_instance :: "(string \<times> addr) list \<Rightarrow> pydict \<Rightarrow> workflow_instance" where
  "sample_instance trs vars = \<lparr>wi_id = ''P_0.0'', wi_process_id = ''P'', wi_status = RUNNING,
     wi_variables = vars, wi_task_results = trs, wi_created_at = 1, wi_updated_at = 2\<rparr>"

definition stub_handler :: "task \<Rightarrow> workflow_instance \<Rightarrow> (error + pyval) \<times> workflow_instance" where
  "stub_handler t i = (Inr VNone, i)"

definition default_engine :: engine where
  "default_engine =
     WorkflowEngine stub_handler stub_handler stub_handler stub_handler stub_handler"

definition review_process :: process_definition where
  "review_process = sample_process ''review'' [Task ''review'' ''Manual review'' HUMAN_TASK]"

definition failing_handler :: "task \<Rightarrow> workflow_instance \<Rightarrow> (error + pyval) \<times> workflow_instance" where
  "failing_handler t i = (Inl (Raised ''boom''), i)"

definition flaky_task :: task where
  "flaky_task = (Task ''t'' ''flaky'' API_CALL)
     \<lparr>task_retry_policy := [(''max_retries'', VInt 2), (''delay'', VInt 0)]\<rparr>"

definition sequence_task :: task where
  "sequence_task = (Task ''S'' ''steps'' SEQUENCE)
     \<lparr>task_config := [(''tasks'', VList
        [VDict [(''id'', VStr ''A''), (''name'', VStr ''a''), (''type'', VStr ''notification'')],
         VDict [(''id'', VStr ''B''), (''name'', VStr ''b''), (''type'', VStr ''api_call'')],
         VDict [(''id'', VStr ''C''), (''name'', VStr ''c''), (''type'', VStr ''transformation'')]])]\<rparr>"

text \<open>The handler table of an engine whose API-call handler always raises.\<close>

definition sample_handlers :: "(task_type \<times> handler) list" where
  "sample_handlers = register_default_handlers failing_handler stub_handler stub_handler
     stub_handler stub_handler"

section \<open>Auxiliary definitions for the proofs about the scheduler\<close>

text \<open>
  The traversal with no limit on the number of frames.  It is not the model of the code,
  which is \<open>visit\<close> above, but the function that \<open>visit\<close> computes whenever it returns
  (lemma \<open>visit_refines\<close> below); the properties of the order are proved for it and carried
  over.  That it is well defined on cyclic dependency references is the reason why a
  cycle alone never exhausts the frames.
\<close>

function visit_unbounded :: "task list \<Rightarrow> task \<Rightarrow> string set \<times> task list \<Rightarrow> string set \<times> task list"
  and visit_deps_unbounded :: "task list \<Rightarrow> string list \<Rightarrow> string set \<times> task list \<Rightarrow> string set \<times> task list"
where
  "visit_unbounded tasks t (visited, order) =
     (if task_id t \<in> visited then (visited, order)
      else (case visit_deps_unbounded tasks (task_dependencies t) (insert (task_id t) visited, order) of
              (visited', order') \<Rightarrow> (visited', order' @ [t])))"
| "visit_deps_unbounded tasks [] st = st"
| "visit_deps_unbounded tasks (dep_id # rest) st =
     (case find (\<lambda>t. task_id t = dep_id) tasks of
        None \<Rightarrow> visit_deps_unbounded tasks rest st
      | Some dep_task \<Rightarrow> visit_deps_unbounded tasks rest (visit_unbounded tasks dep_task st))"
  by pat_completeness auto

text \<open>The recursion is nested (the state of the next dependency is the result of visiting
  the previous one), so termination needs that a visit_unbounded never forgets a visited identifier.\<close>

lemma visited_mono_dom:
  "visit_unbounded_visit_deps_unbounded_dom (Inl (tasks, t, st)) \<Longrightarrow> fst st \<subseteq> fst (visit_unbounded tasks t st)"
  "visit_unbounded_visit_deps_unbounded_dom (Inr (tasks, ds, st)) \<Longrightarrow> fst st \<subseteq> fst (visit_deps_unbounded tasks ds st)"
proof (induction tasks t st and tasks ds st rule: visit_unbounded_visit_deps_unbounded.pinduct)
  case (1 tasks t visited order)
  then show ?case
    by (auto simp: visit_unbounded.psimps split: prod.splits)
next
  case (2 tasks st)
  then show ?case by (simp add: visit_deps_unbounded.psimps)
next
  case (3 tasks dep_id rest st)
  show ?case
  proof (cases "find (\<lambda>t. task_id t = dep_id) tasks")
    case None
    with 3 show ?thesis by (simp add: visit_deps_unbounded.psimps)
  next
    case (Some x2)
    with 3(1,3,4) show ?thesis by (simp add: visit_deps_unbounded.psimps)
  qed
qed

lemma visit_unbounded_terminates: "All visit_unbounded_visit_deps_unbounded_dom"
proof (relation "inv_image (less_than <*lex*> less_than)
    (\<lambda>x. case x of
       Inl (tasks :: task list, t :: task, st :: string set \<times> task list) \<Rightarrow>
         (card (insert (task_id t) (set (map task_id tasks)) - fst st), 0::nat)
     | Inr (tasks :: task list, ds :: string list, st :: string set \<times> task list) \<Rightarrow>
         (card (set (map task_id tasks) - fst st), Suc (length ds)))", goal_cases)
  case 1
  show ?case by (intro wf_inv_image wf_lex_prod wf_less_than)
next
  case (2 tasks t visited order)
  have "set (map task_id tasks) - insert (task_id t) visited
        \<subset> insert (task_id t) (set (map task_id tasks)) - visited"
    using 2 by auto
  then have "card (set (map task_id tasks) - insert (task_id t) visited)
        < card (insert (task_id t) (set (map task_id tasks)) - visited)"
    by (intro psubset_card_mono) auto
  then show ?case by simp
next
  case (3 tasks dep_id rest st)
  then show ?case by simp
next
  case (4 tasks dep_id rest st x2)
  then have "task_id x2 \<in> set (map task_id tasks)"
    by (auto simp: find_Some_iff)
  then have "insert (task_id x2) (set (map task_id tasks)) = set (map task_id tasks)"
    by auto
  then show ?case by simp
next
  case (5 tasks dep_id rest st x2)
  from visited_mono_dom(1)[OF 5(2)]
  have "set (map task_id tasks) - fst (visit_unbounded tasks x2 st) \<subseteq> set (map task_id tasks) - fst st"
    by auto
  then have "card (set (map task_id tasks) - fst (visit_unbounded tasks x2 st))
      \<le> card (set (map task_id tasks) - fst st)"
    by (intro card_mono) auto
  then show ?case by auto
qed

termination visit_unbounded
  by (rule visit_unbounded_terminates)





section \<open>States reached by one execution attempt\<close>

text \<open>The interpreter state after \<^verbatim>\<open>_execute_task\<close> has created the result object of an
  attempt, invoked the handler once and run the assignments of the \<^verbatim>\<open>except\<close> branch
  (\<open>failed_runtime\<close>) or of the success path (\<open>completed_runtime\<close>): one new object, two
  clock readings, one more entry in the invocation log.\<close>

definition failed_runtime :: "env \<Rightarrow> task \<Rightarrow> error \<Rightarrow> runtime \<Rightarrow> runtime" where
  "failed_runtime e task err rt =
     rt\<lparr>heap := (heap rt)(next_addr rt \<mapsto>
            \<lparr>tr_status = FAILED, tr_output = Plain VNone, tr_error = Some err,
             tr_started_at = Some (utcnow e (clock rt)),
             tr_completed_at = Some (utcnow e (Suc (clock rt)))\<rparr>),
        next_addr := Suc (next_addr rt),
        clock := Suc (Suc (clock rt)),
        calls := calls rt @ [task]\<rparr>"

definition completed_runtime :: "env \<Rightarrow> task \<Rightarrow> handler_output \<Rightarrow> runtime \<Rightarrow> runtime" where
  "completed_runtime e task out rt =
     rt\<lparr>heap := (heap rt)(next_addr rt \<mapsto>
            \<lparr>tr_status = COMPLETED, tr_output = out, tr_error = None,
             tr_started_at = Some (utcnow e (clock rt)),
             tr_completed_at = Some (utcnow e (Suc (clock rt)))\<rparr>),
        next_addr := Suc (next_addr rt),
        clock := Suc (Suc (clock rt)),
        calls := calls rt @ [task]\<rparr>"

text \<open>Every result the instance refers to has been created: its address lies below the
  next address to be handed out.\<close>

definition results_allocated :: "xstate \<Rightarrow> bool" where
  "results_allocated st \<longleftrightarrow>
     list_all (\<lambda>ka. snd ka < next_addr (snd st)) (wi_task_results (fst st))"

section \<open>Properties of the scheduler\<close>























lemma get_execution_order_chain:
  "get_execution_order 1000 chain_tasks =
     Inr [Task ''A'' ''first'' NOTIFICATION,
          (Task ''B'' ''second'' NOTIFICATION)\<lparr>task_dependencies := [''A'']\<rparr>]"
  by (simp add: get_execution_order_def chain_tasks_def Task_def eval_nat_numeral)

text \<open>Three tasks, each depending on the next, listed from the dependent end: the third
  level of \<^verbatim>\<open>visit\<close> needs a frame for its lookup that an allowance of two does not
  have; an allowance of four is enough.\<close>

lemma get_execution_order_deep_chain:
  "get_execution_order 2 deep_chain_tasks = Inl RecursionError \<and>
   get_execution_order 4 deep_chain_tasks =
     Inr [Task ''A'' ''first'' NOTIFICATION,
          (Task ''B'' ''second'' NOTIFICATION)\<lparr>task_dependencies := [''A'']\<rparr>,
          (Task ''C'' ''third'' NOTIFICATION)\<lparr>task_dependencies := [''B'']\<rparr>]"
  by (simp add: get_execution_order_def deep_chain_tasks_def Task_def eval_nat_numeral)












text \<open>Two tasks that depend on each other need three frames and no more.\<close>

lemma get_execution_order_cycle:
  "get_execution_order 3 cycle_tasks =
     Inr [(Task ''B'' ''second'' NOTIFICATION)\<lparr>task_dependencies := [''A'']\<rparr>,
          (Task ''A'' ''first'' NOTIFICATION)\<lparr>task_dependencies := [''B'']\<rparr>] \<and>
   get_execution_order 2 cycle_tasks = Inl RecursionError"
  by (simp add: get_execution_order_def cycle_tasks_def Task_def eval_nat_numeral)



text \<open>
  C6.  The claim expects \<^verbatim>\<open>{operator: "gt", left: "$score", right: 0.5}\<close> to evaluate to
  true for \<^verbatim>\<open>score = 0.8\<close> and to false for \<^verbatim>\<open>score = 0.3\<close>.  In the code the right
  operand \<^verbatim>\<open>0.5\<close> is passed to \<^verbatim>\<open>_get_variable_value\<close>, which calls
  \<^verbatim>\<open>expr.startswith("$")\<close> on it: a float has no such attribute, so the evaluation raises
  \<^verbatim>\<open>AttributeError\<close> for either score.
\<close>

theorem evaluate_condition_float_literal_raises:
  "evaluate_condition
     [(''operator'', VStr ''gt''), (''left'', VStr ''$score''), (''right'', VFloat 0.5)]
     [(''score'', VFloat 0.8)] = Inl AttributeError \<and>
   evaluate_condition
     [(''operator'', VStr ''gt''), (''left'', VStr ''$score''), (''right'', VFloat 0.5)]
     [(''score'', VFloat 0.3)] = Inl AttributeError"
  by (simp add: evaluate_condition_def get_variable_value_def dict_get_def)

text \<open>With both operands given as variable references the comparison is the numeric one.\<close>

lemma evaluate_condition_gt_variables:
  "evaluate_condition
     [(''operator'', VStr ''gt''), (''left'', VStr ''$score''), (''right'', VStr ''$threshold'')]
     [(''score'', VFloat 0.8), (''threshold'', VFloat 0.5)] = Inr True \<and>
   evaluate_condition
     [(''operator'', VStr ''gt''), (''left'', VStr ''$score''), (''right'', VStr ''$threshold'')]
     [(''score'', VFloat 0.3), (''threshold'', VFloat 0.5)] = Inr False"
  by (simp add: evaluate_condition_def get_variable_value_def dict_get_def py_gt_def)

text \<open>The literal written as a string, as the repository's own example workflow does
  (\<^verbatim>\<open>"right": "0.8"\<close>), is compared with the number as a string: \<^verbatim>\<open>TypeError\<close>.\<close>

lemma evaluate_condition_gt_string_literal:
  "evaluate_condition
     [(''operator'', VStr ''gt''), (''left'', VStr ''$score''), (''right'', VStr ''0.5'')]
     [(''score'', VFloat 0.8)] = Inl TypeError"
  by (simp add: evaluate_condition_def get_variable_value_def dict_get_def py_gt_def)


section \<open>Properties of the engine facade\<close>

lemma map_of_dict_set: "map_of (dict_set d k v) = (map_of d)(k \<mapsto> v)"
  by (simp add: dict_set_def update_conv')

lemma dict_get_dict_set: "dict_get (dict_set d k v) k dflt = v"
  by (simp add: dict_get_def map_of_dict_set)

text \<open>
  C7 (as amended).  Constructing a \<^verbatim>\<open>ProcessDefinition\<close> never fails on account of the task
  list: the class declares no validator, so any list of tasks, one with a repeated
  identifier included, is accepted and stored unchanged.
\<close>

theorem ProcessDefinition_accepts_any_tasks:
  "\<exists>p. ProcessDefinition i n ver descr ts vars trig meta = Inr p \<and> pd_id p = i \<and> pd_tasks p = ts"
  by (simp add: ProcessDefinition_def)

theorem ProcessDefinition_accepts_any_tasks_witness:
  "\<exists>p. ProcessDefinition ''p'' ''P'' None None chain_tasks None None None = Inr p \<and>
       pd_id p = ''p'' \<and> pd_tasks p = chain_tasks"
  by (rule ProcessDefinition_accepts_any_tasks)

theorem ProcessDefinition_duplicate_ids_counterexample:
  "\<not> distinct (map task_id twin_tasks) \<and>
   ProcessDefinition ''p'' ''P'' None None twin_tasks None None None \<noteq> Inl ValidationError \<and>
   map_sum id pd_tasks (ProcessDefinition ''p'' ''P'' None None twin_tasks None None None)
     = Inr twin_tasks"
  by (simp add: ProcessDefinition_def twin_tasks_def Task_def)

text \<open>
  C8 (as amended).  \<^verbatim>\<open>register_process\<close> never fails: it stores the given definition under
  its identifier, replacing a definition already registered under that identifier, and
  leaves every other registration, the instances and the handlers as they were.
\<close>

theorem register_process_replaces:
  "map_of (processes (register_process eng p)) (pd_id p) = Some p \<and>
   (\<forall>k. k \<noteq> pd_id p \<longrightarrow>
      map_of (processes (register_process eng p)) k = map_of (processes eng) k) \<and>
   instances (register_process eng p) = instances eng \<and>
   task_handlers (register_process eng p) = task_handlers eng"
  by (simp add: register_process_def map_of_dict_set)

theorem register_process_replaces_witness:
  "map_of (processes (register_process default_engine (sample_process ''first'' [])))
     ''P'' = Some (sample_process ''first'' []) \<and>
   map_of (processes (register_process default_engine (sample_process ''first'' [])))
     ''Q'' = None"
  using register_process_replaces[of default_engine "sample_process ''first'' []"]
  by (simp add: sample_process_def default_engine_def WorkflowEngine_def)

theorem register_process_duplicate_counterexample:
  "map_of (processes (register_process default_engine (sample_process ''first'' [])))
     ''P'' = Some (sample_process ''first'' []) \<and>
   map_of (processes (register_process
       (register_process default_engine (sample_process ''first'' []))
       (sample_process ''second'' []))) ''P'' = Some (sample_process ''second'' []) \<and>
   sample_process ''second'' [] \<noteq> sample_process ''first'' []"
  by (simp add: register_process_def map_of_dict_set sample_process_def default_engine_def
      WorkflowEngine_def)

text \<open>
  C9.  Starting a process identifier that is not registered fails with the engine's
  not-found error (in the code a \<^verbatim>\<open>ValueError\<close> with the message
  \<^verbatim>\<open>Process <id> not found\<close>) and leaves the engine, its instance collection included,
  and the interpreter state unchanged: no instance is created and nothing is scheduled.
\<close>

theorem start_process_unregistered:
  assumes "map_of (processes eng) process_id = None"
  shows "start_process e process_id variables (eng, rt) =
           (Inl (ValueError_process_not_found process_id), (eng, rt))"
  using assms by (simp add: start_process_def)

theorem start_process_unregistered_witness:
  "map_of (processes default_engine) ''missing'' = None \<and>
   start_process sample_env ''missing'' None (default_engine, fresh_runtime) =
     (Inl (ValueError_process_not_found ''missing''), (default_engine, fresh_runtime))"
proof -
  have h: "map_of (processes default_engine) ''missing'' = None"
    by (simp add: default_engine_def WorkflowEngine_def)
  from start_process_unregistered[OF h] h show ?thesis by simp
qed


section \<open>Properties of the executor\<close>

lemmas exec_defs = skip_task_def start_task_def complete_task_def fail_task_def now_def
  new_result_def mutate_def set_result_def recorded_def result_status_def TaskResult_def

text \<open>
  C4.  When some dependency of a task has no recorded result, or a recorded result whose
  status is not \<^verbatim>\<open>COMPLETED\<close>, \<^verbatim>\<open>_execute_task\<close> records a fresh result with status
  \<^verbatim>\<open>SKIPPED\<close> (and no output, error or timestamps) for the task and returns it; no handler
  is invoked (the invocation log is unchanged) and the instance's status and variables
  are untouched.
\<close>

theorem execute_task_skips_on_unmet_dependency:
  assumes "d \<in> set (task_dependencies task)"
    and "\<forall>r. recorded (inst, rt) d = Some r \<longrightarrow> tr_status r \<noteq> COMPLETED"
  shows "\<exists>st'. execute_task (Suc n) e hs task (inst, rt) = Some (Inr (next_addr rt), st') \<and>
           recorded st' (task_id task) =
             Some \<lparr>tr_status = SKIPPED, tr_output = Plain VNone, tr_error = None,
                   tr_started_at = None, tr_completed_at = None\<rparr> \<and>
           map_option tr_status (recorded st' (task_id task)) = Some SKIPPED \<and>
           result_status st' (next_addr rt) = Some SKIPPED \<and>
           calls (snd st') = calls rt \<and>
           wi_status (fst st') = wi_status inst \<and>
           wi_variables (fst st') = wi_variables inst"
proof -
  have "\<not> dep_completed (inst, rt) d"
    using assms(2) by (auto simp: dep_completed_def split: option.splits)
  with assms(1) have "\<not> list_all (dep_completed (inst, rt)) (task_dependencies task)"
    by (auto simp: list_all_iff)
  then show ?thesis
    by (simp add: exec_defs map_of_dict_set)
qed

theorem execute_task_skips_on_unmet_dependency_witness:
  "\<exists>st'. execute_task (Suc 0) sample_env (task_handlers default_engine)
            ((Task ''B'' ''second'' NOTIFICATION)\<lparr>task_dependencies := [''A'']\<rparr>)
            (sample_instance [(''A'', 0)] [], skipped_runtime)
          = Some (Inr 1, st') \<and>
         map_option tr_status (recorded (sample_instance [(''A'', 0)] [], skipped_runtime) ''A'')
           = Some SKIPPED \<and>
         map_option tr_status (recorded st' ''B'') = Some SKIPPED \<and>
         result_status st' 1 = Some SKIPPED \<and>
         calls (snd st') = [] \<and>
         wi_status (fst st') = RUNNING \<and>
         wi_variables (fst st') = []"
  using execute_task_skips_on_unmet_dependency[of "''A''"
      "(Task ''B'' ''second'' NOTIFICATION)\<lparr>task_dependencies := [''A'']\<rparr>"
      "sample_instance [(''A'', 0)] []" skipped_runtime
      0 sample_env "task_handlers default_engine"]
  by (auto simp add: Task_def sample_instance_def skipped_runtime_def recorded_def)

text \<open>
  C2 (as amended).  A missing handler is not fatal to the instance run.  The lookup
  failure is raised inside the \<^verbatim>\<open>try\<close> block of \<^verbatim>\<open>_execute_task\<close> and caught by its
  \<^verbatim>\<open>except\<close> clause: for a task whose type has no registered handler, whose dependencies
  are all completed and which declares no retry policy, \<^verbatim>\<open>_execute_task\<close> returns normally
  with the task's result recorded as \<^verbatim>\<open>FAILED\<close> (the error being the missing-handler
  \<^verbatim>\<open>ValueError\<close>), leaves the instance status as it was, invokes no handler, and the loop of
  \<^verbatim>\<open>_execute_instance\<close> goes on with the next scheduled task.
\<close>

theorem missing_handler_is_recovered:
  assumes "map_of hs (task_type task) = None"
    and "list_all (dep_completed (inst, rt)) (task_dependencies task)"
    and "task_retry_policy task = []"
    and "wi_status inst \<noteq> CANCELLED"
  shows "\<exists>st'. execute_task (Suc n) e hs task (inst, rt) = Some (Inr (next_addr rt), st') \<and>
           recorded st' (task_id task) =
             Some \<lparr>tr_status = FAILED, tr_output = Plain VNone,
                   tr_error = Some (ValueError_no_handler (task_type task)),
                   tr_started_at = Some (utcnow e (clock rt)),
                   tr_completed_at = Some (utcnow e (Suc (clock rt)))\<rparr> \<and>
           wi_status (fst st') = wi_status inst \<and>
           calls (snd st') = calls rt \<and>
           run_tasks (Suc n) e hs (task # rest) (inst, rt) = run_tasks (Suc n) e hs rest st'"
  using assms by (simp add: exec_defs map_of_dict_set)

theorem missing_handler_is_recovered_witness:
  "\<exists>st'. execute_task (Suc 0) sample_env (task_handlers default_engine)
            (Task ''review'' ''Manual review'' HUMAN_TASK) (sample_instance [] [], fresh_runtime)
          = Some (Inr 0, st') \<and>
         map_option tr_status (recorded st' ''review'') = Some FAILED \<and>
         map_option tr_error (recorded st' ''review'') = Some (Some (ValueError_no_handler HUMAN_TASK)) \<and>
         wi_status (fst st') = RUNNING \<and>
         calls (snd st') = []"
  using missing_handler_is_recovered[of "task_handlers default_engine"
      "Task ''review'' ''Manual review'' HUMAN_TASK" "sample_instance [] []" fresh_runtime
      0 sample_env "[]"]
  by (auto simp add: Task_def sample_instance_def fresh_runtime_def default_engine_def
      WorkflowEngine_def register_default_handlers_def)

theorem missing_handler_counterexample:
  "map_of (task_handlers default_engine) HUMAN_TASK = None \<and>
   fst (start_process sample_env ''P'' None
          (register_process default_engine review_process, fresh_runtime)) = Inr ''P_0.0'' \<and>
   map_option
     (\<lambda>(r, (eng, rt)).
        (r, map_option wi_status (get_instance_status eng ''P_0.0''),
         map_option tr_status
           (case get_instance_status eng ''P_0.0'' of
              None \<Rightarrow> None | Some i \<Rightarrow> recorded (i, rt) ''review'')))
     (execute_instance (Suc 0) sample_env ''P_0.0''
        (snd (start_process sample_env ''P'' None
                (register_process default_engine review_process, fresh_runtime))))
     = Some (Inr (), Some COMPLETED, Some FAILED)"
  by (simp add: default_engine_def WorkflowEngine_def register_default_handlers_def
      register_process_def review_process_def sample_process_def start_process_def
      execute_instance_def finish_instance_def get_instance_status_def get_execution_order_def
      eval_nat_numeral
      sample_env_def fresh_runtime_def Task_def dict_merge_def map_of_dict_set
      dep_completed_def exec_defs)


lemma failed_attempt:
  assumes "map_of hs (task_type task) = Some (External h)"
    and "h task (set_result (task_id task) (next_addr rt) inst) = (Inl err, inst1)"
    and "list_all (dep_completed (inst, rt)) (task_dependencies task)"
  shows "execute_task (Suc n) e hs task (inst, rt) =
           (if task_retry_policy task \<noteq> []
            then (case handle_retry n e hs task (inst1, failed_runtime e task err rt) of
                    None \<Rightarrow> None
                  | Some (Inl err', st4) \<Rightarrow> Some (Inl err', st4)
                  | Some (Inr u, st4) \<Rightarrow> Some (Inr (next_addr rt), st4))
            else Some (Inr (next_addr rt), (inst1, failed_runtime e task err rt)))"
  using assms
  by (cases rt)
     (auto simp add: exec_defs failed_runtime_def simp del: handle_retry.simps
           split: option.split sum.split prod.split)

lemma completed_attempt:
  assumes "map_of hs (task_type task) = Some (External h)"
    and "h task (set_result (task_id task) (next_addr rt) inst) = (Inr v, inst1)"
    and "list_all (dep_completed (inst, rt)) (task_dependencies task)"
  shows "execute_task (Suc n) e hs task (inst, rt) =
           Some (Inr (next_addr rt), (inst1, completed_runtime e task (Plain v) rt))"
  using assms
  by (cases rt) (simp add: exec_defs completed_runtime_def)


lemma handle_retry_below:
  assumes "map_of (task_retry_policy task) ''max_retries'' = Some (VInt m)"
    and "map_of (task_retry_policy task) ''delay'' = Some dly" and "num_of dly \<noteq> None"
    and "dict_get (wi_variables inst) (task_id task @ ''_retries'') (VInt 0) = VInt c"
    and "c < m"
  shows "handle_retry n e hs task (inst, rt) =
           (case execute_task n e hs task
                   (inst\<lparr>wi_variables :=
                      dict_set (wi_variables inst) (task_id task @ ''_retries'') (VInt (c + 1))\<rparr>, rt) of
              None \<Rightarrow> None
            | Some (Inl err, st1) \<Rightarrow> Some (Inl err, st1)
            | Some (Inr a, st1) \<Rightarrow> Some (Inr (), st1))"
  using assms
  by (auto simp add: asyncio_sleep_def dict_get_def[of "task_retry_policy task"]
        simp del: execute_task.simps)

lemma handle_retry_reached:
  assumes "map_of (task_retry_policy task) ''max_retries'' = Some (VInt m)"
    and "dict_get (wi_variables inst) (task_id task @ ''_retries'') (VInt 0) = VInt c"
    and "\<not> c < m"
  shows "handle_retry n e hs task (inst, rt) = Some (Inr (), (inst, rt))"
  using assms
  by (simp add: dict_get_def[of "task_retry_policy task"] del: execute_task.simps)

lemma allocated_address:
  assumes "results_allocated (inst, rt)" and "map_of (wi_task_results inst) d = Some a"
  shows "a < next_addr rt"
proof -
  from assms(2) have "(d, a) \<in> set (wi_task_results inst)" by (rule map_of_SomeD)
  with assms(1) show ?thesis
    by (auto simp: results_allocated_def list_all_iff)
qed

lemma dep_completed_after_failure:
  assumes "dep_completed (inst, rt) d" and "d \<noteq> task_id task"
    and "results_allocated (inst, rt)"
  shows "dep_completed
           (set_result (task_id task) (next_addr rt) inst\<lparr>wi_variables := vs\<rparr>,
            failed_runtime e task err rt) d"
proof -
  from assms(1) obtain a r where a: "map_of (wi_task_results inst) d = Some a"
    and r: "heap rt a = Some r" "tr_status r = COMPLETED"
    by (auto simp: dep_completed_def recorded_def split: option.splits)
  from allocated_address[OF assms(3) a] have "a \<noteq> next_addr rt" by simp
  with a r assms(2) show ?thesis
    by (simp add: dep_completed_def recorded_def set_result_def map_of_dict_set
        failed_runtime_def)
qed

lemma set_update_subset:
  "set (AList.update k v al) \<subseteq> insert (k, v) (set al)"
  by (induction al) auto

lemma results_allocated_after_failure:
  assumes "results_allocated (inst, rt)"
  shows "results_allocated
           (set_result (task_id task) (next_addr rt) inst\<lparr>wi_variables := vs\<rparr>,
            failed_runtime e task err rt)"
proof -
  have "set (AList.update (task_id task) (next_addr rt) (wi_task_results inst))
      \<subseteq> insert (task_id task, next_addr rt) (set (wi_task_results inst))"
    by (rule set_update_subset)
  with assms show ?thesis
    by (fastforce simp: results_allocated_def list_all_iff set_result_def dict_set_def
        failed_runtime_def)
qed

lemma recorded_after_failure:
  "map_option tr_status
     (recorded (set_result (task_id task) (next_addr rt) inst\<lparr>wi_variables := vs\<rparr>,
                failed_runtime e task err rt) (task_id task)) = Some FAILED"
  by (simp add: recorded_def set_result_def map_of_dict_set failed_runtime_def)

text \<open>The retry recursion for a handler that always raises and leaves the instance as it
  found it: starting with the counter at \<open>c \<le> m\<close>, the handler runs once for the first
  attempt and once for each of the \<open>m - c\<close> retries.\<close>

lemma retry_chain:
  fixes m c :: int
  assumes hnd: "map_of hs (task_type task) = Some (External h)"
    and raises: "\<forall>i. \<exists>err. h task i = (Inl err, i)"
    and mx: "map_of (task_retry_policy task) ''max_retries'' = Some (VInt m)"
    and dl: "map_of (task_retry_policy task) ''delay'' = Some dly" "num_of dly \<noteq> None"
    and noself: "task_id task \<notin> set (task_dependencies task)"
  shows "list_all (dep_completed (inst, rt)) (task_dependencies task) \<Longrightarrow>
         results_allocated (inst, rt) \<Longrightarrow>
         dict_get (wi_variables inst) (task_id task @ ''_retries'') (VInt 0) = VInt c \<Longrightarrow>
         c \<le> m \<Longrightarrow> k = nat (m - c) \<Longrightarrow>
         \<exists>st'. execute_task (Suc (k + n)) e hs task (inst, rt) = Some (Inr (next_addr rt), st') \<and>
               calls (snd st') = calls rt @ replicate (Suc k) task \<and>
               map_option tr_status (recorded st' (task_id task)) = Some FAILED"
proof (induction k arbitrary: inst rt c)
  case 0
  let ?inst1 = "set_result (task_id task) (next_addr rt) inst"
  from raises obtain err where err: "h task ?inst1 = (Inl err, ?inst1)" by blast
  have pol: "task_retry_policy task \<noteq> []" using mx by auto
  have cnt: "dict_get (wi_variables ?inst1) (task_id task @ ''_retries'') (VInt 0) = VInt c"
    using 0(3) by (simp add: set_result_def)
  have "\<not> c < m" using 0(4,5) by simp
  from handle_retry_reached[OF mx cnt this]
  have "execute_task (Suc (0 + n)) e hs task (inst, rt) =
          Some (Inr (next_addr rt), (?inst1, failed_runtime e task err rt))"
    using pol by (simp add: failed_attempt[OF hnd err 0(1)] del: execute_task.simps handle_retry.simps)
  moreover have "calls (failed_runtime e task err rt) = calls rt @ replicate (Suc 0) task"
    by (simp add: failed_runtime_def)
  moreover have "map_option tr_status
      (recorded (?inst1, failed_runtime e task err rt) (task_id task)) = Some FAILED"
    using recorded_after_failure[where task = task and rt = rt and inst = inst
        and vs = "wi_variables inst" and e = e and err = err]
    by (simp add: set_result_def)
  ultimately show ?case by simp
next
  case (Suc k)
  let ?inst1 = "set_result (task_id task) (next_addr rt) inst"
  let ?key = "task_id task @ ''_retries''"
  let ?vs = "dict_set (wi_variables inst) ?key (VInt (c + 1))"
  let ?inst2 = "?inst1\<lparr>wi_variables := ?vs\<rparr>"
  from raises obtain err where err: "h task ?inst1 = (Inl err, ?inst1)" by blast
  let ?rt1 = "failed_runtime e task err rt"
  have pol: "task_retry_policy task \<noteq> []" using mx by auto
  have cnt: "dict_get (wi_variables ?inst1) ?key (VInt 0) = VInt c"
    using Suc.prems(3) by (simp add: set_result_def)
  have lt: "c < m" using Suc.prems(5) by simp
  have vs: "wi_variables ?inst1 = wi_variables inst" by (simp add: set_result_def)
  have step: "execute_task (Suc (Suc k + n)) e hs task (inst, rt) =
      (case execute_task (Suc k + n) e hs task (?inst2, ?rt1) of
         None \<Rightarrow> None
       | Some (Inl err', st4) \<Rightarrow> Some (Inl err', st4)
       | Some (Inr a, st4) \<Rightarrow> Some (Inr (next_addr rt), st4))"
    using pol handle_retry_below[where n = "Suc k + n" and e = e and hs = hs and rt = ?rt1, OF mx dl cnt lt]
    by (simp add: failed_attempt[OF hnd err Suc.prems(1)] vs
          del: execute_task.simps handle_retry.simps
          split: option.split sum.split prod.split)
  have deps2: "list_all (dep_completed (?inst2, ?rt1)) (task_dependencies task)"
    unfolding list_all_iff
  proof
    fix d assume d: "d \<in> set (task_dependencies task)"
    with Suc.prems(1) have "dep_completed (inst, rt) d" by (simp add: list_all_iff)
    moreover from d noself have "d \<noteq> task_id task" by auto
    ultimately show "dep_completed (?inst2, ?rt1) d"
      using Suc.prems(2) by (rule dep_completed_after_failure)
  qed
  have alloc2: "results_allocated (?inst2, ?rt1)"
    using Suc.prems(2) by (rule results_allocated_after_failure)
  have cnt2: "dict_get (wi_variables ?inst2) ?key (VInt 0) = VInt (c + 1)"
    by (simp add: dict_get_dict_set)
  have le2: "c + 1 \<le> m" using lt by simp
  have k2: "k = nat (m - (c + 1))" using Suc.prems(5) by simp
  from Suc.IH[OF deps2 alloc2 cnt2 le2 k2]
  obtain st' where st': "execute_task (Suc (k + n)) e hs task (?inst2, ?rt1)
        = Some (Inr (next_addr ?rt1), st')"
    and c': "calls (snd st') = calls ?rt1 @ replicate (Suc k) task"
    and f': "map_option tr_status (recorded st' (task_id task)) = Some FAILED"
    by blast
  have "execute_task (Suc (Suc k + n)) e hs task (inst, rt) = Some (Inr (next_addr rt), st')"
    using step st' by (simp del: execute_task.simps)
  moreover have "calls (snd st') = calls rt @ replicate (Suc (Suc k)) task"
    using c' by (simp add: failed_runtime_def replicate_app_Cons_same)
  ultimately show ?case using f' by blast
qed

text \<open>
  C3 (as amended).  Let a task's handler always raise without changing the instance, let
  its retry policy be \<^verbatim>\<open>{max_retries: 2, delay: 0}\<close>, let all its dependencies be
  completed (and the task not be among its own dependencies), and let the retry counter
  \<^verbatim>\<open><id>_retries\<close> be absent from the instance variables or \<^verbatim>\<open>0\<close>.  Then executing the task
  invokes the handler exactly three times and the result finally recorded for the task
  has status \<^verbatim>\<open>FAILED\<close>.  (\<open>results_allocated\<close> says that the results the instance refers
  to are objects that exist, as they do in every state the engine builds.)
\<close>

theorem failing_task_runs_three_times:
  assumes "map_of hs (task_type task) = Some (External h)"
    and "\<forall>i. \<exists>err. h task i = (Inl err, i)"
    and "map_of (task_retry_policy task) ''max_retries'' = Some (VInt 2)"
    and "map_of (task_retry_policy task) ''delay'' = Some (VInt 0)"
    and "list_all (dep_completed (inst, rt)) (task_dependencies task)"
    and "task_id task \<notin> set (task_dependencies task)"
    and "results_allocated (inst, rt)"
    and "dict_get (wi_variables inst) (task_id task @ ''_retries'') (VInt 0) = VInt 0"
  shows "\<exists>st'. execute_task (Suc (Suc (Suc n))) e hs task (inst, rt)
                 = Some (Inr (next_addr rt), st') \<and>
               calls (snd st') = calls rt @ [task, task, task] \<and>
               map_option tr_status (recorded st' (task_id task)) = Some FAILED"
proof -
  have d: "num_of (VInt 0) \<noteq> None" by simp
  have k: "Suc (Suc 0) = nat (2 - 0)" by simp
  from retry_chain[OF assms(1,2,3,4) d assms(6,5,7,8) _ k, of n e]
  show ?thesis by (simp del: execute_task.simps add: numeral_2_eq_2)
qed

theorem failing_task_runs_three_times_witness:
  "\<exists>st'. execute_task (Suc (Suc (Suc 0))) sample_env sample_handlers
            flaky_task (sample_instance [] [], fresh_runtime) = Some (Inr 0, st') \<and>
         calls (snd st') = [flaky_task, flaky_task, flaky_task] \<and>
         map_option tr_status (recorded st' ''t'') = Some FAILED"
  using failing_task_runs_three_times[of sample_handlers flaky_task
      failing_handler "sample_instance [] []" fresh_runtime 0 sample_env]
  by (simp add: flaky_task_def Task_def failing_handler_def sample_instance_def
      fresh_runtime_def results_allocated_def dict_get_def sample_handlers_def
      register_default_handlers_def del: execute_task.simps)

theorem failing_task_preset_counter_counterexample:
  "map_option (\<lambda>(r, st). (r, calls (snd st), map_option tr_status (recorded st ''t'')))
     (execute_task (Suc (Suc (Suc 0))) sample_env sample_handlers
        flaky_task (sample_instance [] [(''t_retries'', VInt 2)], fresh_runtime))
   = Some (Inr 0, [flaky_task], Some FAILED)"
  by (simp add: flaky_task_def Task_def failing_handler_def sample_instance_def
      fresh_runtime_def sample_env_def dict_get_def dep_completed_def exec_defs map_of_dict_set
      sample_handlers_def register_default_handlers_def Let_def)

text \<open>
  C5.  Let a sequence task be configured with three sub-task descriptors from which the
  constructor builds \<open>A\<close>, \<open>B\<close> and \<open>C\<close>, none with dependencies or a retry policy, let the
  handler registered for \<open>A\<close>'s type return and the one for \<open>B\<close>'s type raise.  Then the
  sequence handler returns exactly two results, \<open>A\<close>'s with status \<^verbatim>\<open>COMPLETED\<close> and
  \<open>B\<close>'s with status \<^verbatim>\<open>FAILED\<close>, and the handlers invoked are the sequence handler
  itself, \<open>A\<close>'s and \<open>B\<close>'s, once each: \<open>C\<close>'s handler is never invoked.
\<close>

theorem sequence_stops_at_first_failure:
  assumes seq: "map_of hs (task_type task) = Some Sequence_handler"
    and cfg: "map_of (task_config task) ''tasks'' = Some (VList [cA, cB, cC])"
    and A: "Task_kwargs e cA = Inr A" and B: "Task_kwargs e cB = Inr B"
    and C: "Task_kwargs e cC = Inr C"
    and plainA: "task_dependencies A = []" "task_retry_policy A = []"
    and plainB: "task_dependencies B = []" "task_retry_policy B = []"
    and plainC: "task_dependencies C = []" "task_retry_policy C = []"
    and hA: "map_of hs (task_type A) = Some (External hA)" "\<forall>i. \<exists>v i'. hA A i = (Inr v, i')"
    and hB: "map_of hs (task_type B) = Some (External hB)" "\<forall>i. \<exists>err i'. hB B i = (Inl err, i')"
  shows "\<exists>st'. invoke_handler (Suc n) e hs task (inst, rt)
                 = Some (Inr (Results [next_addr rt, Suc (next_addr rt)]), st') \<and>
               result_status st' (next_addr rt) = Some COMPLETED \<and>
               result_status st' (Suc (next_addr rt)) = Some FAILED \<and>
               calls (snd st') = calls rt @ [task, A, B]"
proof -
  let ?rt0 = "rt\<lparr>calls := calls rt @ [task]\<rparr>"
  let ?a = "next_addr rt"
  from hA(2) obtain v iA where v: "hA A (set_result (task_id A) ?a inst) = (Inr v, iA)"
    by blast
  let ?rtA = "completed_runtime e A (Plain v) ?rt0"
  have a0: "next_addr ?rt0 = ?a" by simp
  have eA: "execute_task (Suc n) e hs A (inst, ?rt0) = Some (Inr ?a, (iA, ?rtA))"
    using completed_attempt[where rt = ?rt0 and inst = inst and n = n and e = e,
        OF hA(1)] v plainA(1)
    by (simp del: execute_task.simps)
  have a1: "next_addr ?rtA = Suc ?a" by (simp add: completed_runtime_def)
  from hB(2) obtain err iB where err: "hB B (set_result (task_id B) (Suc ?a) iA) = (Inl err, iB)"
    by blast
  let ?rtB = "failed_runtime e B err ?rtA"
  have eB: "execute_task (Suc n) e hs B (iA, ?rtA) = Some (Inr (Suc ?a), (iB, ?rtB))"
    using failed_attempt[where rt = ?rtA and inst = iA and n = n and e = e,
        OF hB(1)] err plainB a1
    by (simp del: execute_task.simps)
  have sA: "result_status (iA, ?rtA) ?a = Some COMPLETED"
    by (simp add: result_status_def completed_runtime_def)
  have sB: "result_status (iB, ?rtB) (Suc ?a) = Some FAILED"
    by (simp add: result_status_def failed_runtime_def completed_runtime_def)
  have sA': "result_status (iB, ?rtB) ?a = Some COMPLETED"
    by (simp add: result_status_def failed_runtime_def completed_runtime_def)
  have "invoke_handler (Suc n) e hs task (inst, rt)
          = Some (Inr (Results [?a, Suc ?a]), (iB, ?rtB))"
    using seq cfg A B eA eB sA sB
    by (simp add: dict_get_def del: execute_task.simps)
  moreover have "calls ?rtB = calls rt @ [task, A, B]"
    by (simp add: failed_runtime_def completed_runtime_def)
  ultimately show ?thesis
    using sA' sB by simp
qed

theorem sequence_stops_at_first_failure_witness:
  "\<exists>st'. invoke_handler (Suc 0) sample_env sample_handlers sequence_task
            (sample_instance [] [], fresh_runtime)
          = Some (Inr (Results [0, 1]), st') \<and>
         result_status st' 0 = Some COMPLETED \<and>
         result_status st' 1 = Some FAILED \<and>
         calls (snd st') = [sequence_task, Task ''A'' ''a'' NOTIFICATION, Task ''B'' ''b'' API_CALL]"
  using sequence_stops_at_first_failure[of sample_handlers sequence_task
      "VDict [(''id'', VStr ''A''), (''name'', VStr ''a''), (''type'', VStr ''notification'')]"
      "VDict [(''id'', VStr ''B''), (''name'', VStr ''b''), (''type'', VStr ''api_call'')]"
      "VDict [(''id'', VStr ''C''), (''name'', VStr ''c''), (''type'', VStr ''transformation'')]"
      sample_env "Task ''A'' ''a'' NOTIFICATION" "Task ''B'' ''b'' API_CALL"
      "Task ''C'' ''c'' TRANSFORMATION" stub_handler failing_handler 0
      "sample_instance [] []" fresh_runtime]
  by (simp add: sample_handlers_def register_default_handlers_def sequence_task_def Task_def Task_kwargs_def sample_env_def
      sample_Task_init_def task_type_of_def stub_handler_def failing_handler_def
      fresh_runtime_def
      del: invoke_handler.simps)

text \<open>The same run evaluated directly.\<close>

lemma sequence_run_example:
  "map_option (\<lambda>(r, st). (r, calls (snd st)))
     (invoke_handler (Suc 0) sample_env sample_handlers sequence_task
        (sample_instance [] [], fresh_runtime))
   = Some (Inr (Results [0, 1]),
           [sequence_task, Task ''A'' ''a'' NOTIFICATION, Task ''B'' ''b'' API_CALL])"
  by (simp add: sample_handlers_def register_default_handlers_def sequence_task_def Task_def Task_kwargs_def sample_env_def
      sample_Task_init_def task_type_of_def stub_handler_def failing_handler_def
      fresh_runtime_def sample_instance_def dict_get_def dep_completed_def exec_defs
      map_of_dict_set Let_def)

end
